theory Spec2Isabelle
  imports Main "HOL-Library.Sublist"
begin

section \<open>Data model\<close>

text \<open>
  The Go packages \<^verbatim>\<open>serp\<close> (yandex entry points of the synchronous client
  \<^verbatim>\<open>SerpClient\<close> and of the polling client \<^verbatim>\<open>SerpClientAsync\<close>) and
  \<^verbatim>\<open>internal\<close> (\<^verbatim>\<open>InList\<close>, \<^verbatim>\<open>ValidateUrl\<close>) are embedded as HOL functions.
  Go's named string types are strings, \<^verbatim>\<open>int\<close> fields are integers (they are only
  compared with 0), \<^verbatim>\<open>time.Duration\<close> is an integer count of nanoseconds, a nil-able
  pointer is an \<open>option\<close>, and an \<^verbatim>\<open>error\<close> value is its message.
\<close>

type_synonym Domain = string
type_synonym Locale = string
type_synonym UserAgent = string
type_synonym Render = string
type_synonym Source = string
type_synonym Duration = int
type_synonym JobID = string
type_synonym bytes = string

datatype error = Error string

fun Error_msg :: "error \<Rightarrow> string" where
  "Error_msg (Error s) = s"

text \<open>Values of \<^verbatim>\<open>interface{}\<close> as they occur in a payload.\<close>

datatype jval =
    JString string
  | JInt int
  | JBool bool
  | JMap "(string \<times> jval) list"

type_synonym ParseInstructions = "(string \<times> jval) list"
type_synonym payload = "string \<rightharpoonup> jval"

text \<open>The fields of \<^verbatim>\<open>url.URL\<close> that \<^verbatim>\<open>ValidateUrl\<close> reads.\<close>

record URL =
  Scheme :: string
  Host :: string

text \<open>
  A \<^verbatim>\<open>context.Context\<close>: the background context, a context derived with
  \<^verbatim>\<open>context.WithTimeout\<close>, or a context whose cancel function has been called.
\<close>

datatype Context =
    Background
  | WithTimeout Context Duration
  | Cancelled Context

text \<open>
  \<^verbatim>\<open>ctx.Err()\<close> as the call starts. A context derived from a parent that is done is
  done with the parent's error, and a later timeout or \<^verbatim>\<open>cancel()\<close> does not
  change it; a timeout that is not positive has expired on creation. A positive timeout
  that expires later is not represented: there is no clock.
\<close>

fun ctx_Err :: "Context \<Rightarrow> error option" where
  "ctx_Err Background = None"
| "ctx_Err (WithTimeout parent d) =
     (case ctx_Err parent of
        Some err \<Rightarrow> Some err
      | None \<Rightarrow> if d \<le> 0 then Some (Error ''context deadline exceeded'') else None)"
| "ctx_Err (Cancelled parent) =
     (case ctx_Err parent of
        Some err \<Rightarrow> Some err
      | None \<Rightarrow> Some (Error ''context canceled''))"

record HttpResponse =
  StatusCode :: int
  Body :: bytes

record Resp =
  Parsed :: bool
  Content :: bytes

record YandexSearchOpts =
  Domain :: Domain
  StartPage :: int
  Pages :: int
  Limit :: int
  Locale :: Locale
  GeoLocation :: string
  UserAgent :: UserAgent
  CallbackUrl :: string
  ParseInstructions :: "ParseInstructions option"
  PollInterval :: Duration

text \<open>
  \<^verbatim>\<open>YandexUrlOpts\<close> repeats four field names of \<^verbatim>\<open>YandexSearchOpts\<close>; its
  fields carry the prefix \<open>Url_\<close> here.
\<close>

record YandexUrlOpts =
  Url_UserAgent :: UserAgent
  Url_Render :: Render
  Url_CallbackUrl :: string
  Url_ParseInstructions :: "ParseInstructions option"
  Url_PollInterval :: Duration

section \<open>Package internal\<close>

text \<open>\<^verbatim>\<open>InList\<close>: the range loop with its early return.\<close>

fun InList :: "'a \<Rightarrow> 'a list \<Rightarrow> bool" where
  "InList val [] = False"
| "InList val (item # list) = (if item = val then True else InList val list)"

text \<open>\<^verbatim>\<open>strings.Contains(s, substr)\<close>: some suffix of \<open>s\<close> starts with \<open>substr\<close>.\<close>

fun Contains :: "string \<Rightarrow> string \<Rightarrow> bool" where
  "Contains [] substr = (substr = [])"
| "Contains (c # s) substr = (if prefix substr (c # s) then True else Contains s substr)"

text \<open>
  \<^verbatim>\<open>ValidateUrl\<close>. The parser \<^verbatim>\<open>url.ParseRequestURI\<close> belongs to Go's standard
  library; it is the parameter \<open>ParseRequestURI\<close>, a function from the input to an error
  or to the parsed URL.
\<close>

definition ValidateUrl ::
  "(string \<Rightarrow> error + URL) \<Rightarrow> string \<Rightarrow> string \<Rightarrow> error option" where
  "ValidateUrl ParseRequestURI inputUrl host =
     (if inputUrl = [] then Some (Error ''URL parameter is empty'')
      else case ParseRequestURI inputUrl of
        Inl err \<Rightarrow> Some (Error (''failed to parse URL: '' @ Error_msg err))
      | Inr parsedUrl \<Rightarrow>
          if Scheme parsedUrl = [] then Some (Error ''URL is missing scheme'')
          else if Host parsedUrl = [] then Some (Error ''URL is missing a host'')
          else if \<not> Contains (Host parsedUrl) host
            then Some (Error (''URL does not belong to '' @ host))
          else None)"

section \<open>Collaborators outside the two source files\<close>

text \<open>
  The entry points call into package \<^verbatim>\<open>oxylabs\<close> (named constants and validators),
  package \<^verbatim>\<open>internal\<close> (default setters and default constants), the client
  \<^verbatim>\<open>c.C\<close> (transport, job submission, poller), \<^verbatim>\<open>json.Marshal\<close>,
  \<^verbatim>\<open>url.ParseRequestURI\<close> and \<^verbatim>\<open>GetResp\<close>. None of them is defined in the two
  source files, so each is a parameter: a field of the environment \<open>env\<close>, with the
  argument list of its call site. A setter \<^verbatim>\<open>SetDefaultX(&opt.X)\<close> is the function
  from the old field value to the new one. The setters write through the pointer, so
  they also change the struct of a caller who passed one; the entry points here take the
  options by value and do not return the changed struct.
\<close>

record oxylabs =
  DOMAIN_COM :: Domain
  DOMAIN_RU :: Domain
  DOMAIN_UA :: Domain
  DOMAIN_BY :: Domain
  DOMAIN_KZ :: Domain
  DOMAIN_TR :: Domain
  LOCALE_EN :: Locale
  LOCALE_RU :: Locale
  LOCALE_BY :: Locale
  LOCALE_DE :: Locale
  LOCALE_FR :: Locale
  LOCALE_ID :: Locale
  LOCALE_KK :: Locale
  LOCALE_TT :: Locale
  LOCALE_TR :: Locale
  LOCALE_UK :: Locale
  YandexSearch :: Source
  YandexUrl :: Source
  IsUserAgentValid :: "UserAgent \<Rightarrow> bool"
  IsRenderValid :: "Render \<Rightarrow> bool"
  ValidateParseInstructions :: "ParseInstructions \<Rightarrow> error option"

record internal_pkg =
  DefaultTimeout :: Duration
  DefaultLimit_SERP :: int
  SetDefaultDomain :: "Domain \<Rightarrow> Domain"
  SetDefaultStartPage :: "int \<Rightarrow> int"
  SetDefaultLimit :: "int \<Rightarrow> int \<Rightarrow> int"
  SetDefaultPages :: "int \<Rightarrow> int"
  SetDefaultUserAgent :: "UserAgent \<Rightarrow> UserAgent"

text \<open>
  The poller \<^verbatim>\<open>PollJobStatus(ctx, jobID, interval, httpRespChan, errChan)\<close> runs as a
  goroutine; what the caller can observe of it is the sequence of sends it performs on
  the two unbuffered channels it is given, in program order.
\<close>

datatype send =
    SendErrChan "error option"
  | SendHttpRespChan HttpResponse

record Client =
  Req :: "Context \<Rightarrow> bytes \<Rightarrow> string \<Rightarrow> error + HttpResponse"
  GetJobID :: "bytes \<Rightarrow> error + JobID"
  PollJobStatus :: "Context \<Rightarrow> JobID \<Rightarrow> Duration \<Rightarrow> send list"

record env =
  ox :: oxylabs
  internal :: internal_pkg
  C :: Client
  json_Marshal :: "payload \<Rightarrow> error + bytes"
  url_ParseRequestURI :: "string \<Rightarrow> error + URL"
  GetResp :: "HttpResponse \<Rightarrow> bool \<Rightarrow> bool \<Rightarrow> error + Resp"

section \<open>Package serp: options and validation\<close>

definition YandexSearchAcceptedDomainParameters :: "env \<Rightarrow> Domain list" where
  "YandexSearchAcceptedDomainParameters env =
     [DOMAIN_COM (ox env), DOMAIN_RU (ox env), DOMAIN_UA (ox env),
      DOMAIN_BY (ox env), DOMAIN_KZ (ox env), DOMAIN_TR (ox env)]"

definition YandexSearchAcceptedLocaleParameters :: "env \<Rightarrow> Locale list" where
  "YandexSearchAcceptedLocaleParameters env =
     [LOCALE_EN (ox env), LOCALE_RU (ox env), LOCALE_BY (ox env), LOCALE_DE (ox env),
      LOCALE_FR (ox env), LOCALE_ID (ox env), LOCALE_KK (ox env), LOCALE_TT (ox env),
      LOCALE_TR (ox env), LOCALE_UK (ox env)]"

text \<open>\<^verbatim>\<open>(*YandexSearchOpts).checkParameterValidity\<close>, nil for no error.\<close>

definition checkParameterValidity :: "env \<Rightarrow> YandexSearchOpts \<Rightarrow> error option" where
  "checkParameterValidity env opt =
     (if \<not> InList (Domain opt) (YandexSearchAcceptedDomainParameters env)
        then Some (Error (''invalid domain parameter: '' @ Domain opt))
      else if Locale opt \<noteq> [] \<and> \<not> InList (Locale opt) (YandexSearchAcceptedLocaleParameters env)
        then Some (Error (''invalid locale parameter: '' @ Locale opt))
      else if \<not> IsUserAgentValid (ox env) (UserAgent opt)
        then Some (Error (''invalid user agent parameter: '' @ UserAgent opt))
      else if Limit opt \<le> 0 \<or> Pages opt \<le> 0 \<or> StartPage opt \<le> 0
        then Some (Error ''limit, pages and start_page parameters must be greater than 0'')
      else case ParseInstructions opt of
        None \<Rightarrow> None
      | Some instructions \<Rightarrow>
          (case ValidateParseInstructions (ox env) instructions of
             Some err \<Rightarrow> Some (Error (''invalid parse instructions: '' @ Error_msg err))
           | None \<Rightarrow> None))"

text \<open>\<^verbatim>\<open>(*YandexUrlOpts).checkParameterValidity\<close>.\<close>

definition checkParameterValidity_Url :: "env \<Rightarrow> YandexUrlOpts \<Rightarrow> error option" where
  "checkParameterValidity_Url env opt =
     (if \<not> IsUserAgentValid (ox env) (Url_UserAgent opt)
        then Some (Error (''invalid user agent parameter: '' @ Url_UserAgent opt))
      else if Url_Render opt \<noteq> [] \<and> \<not> IsRenderValid (ox env) (Url_Render opt)
        then Some (Error (''invalid render parameter: '' @ Url_Render opt))
      else case Url_ParseInstructions opt of
        None \<Rightarrow> None
      | Some instructions \<Rightarrow>
          (case ValidateParseInstructions (ox env) instructions of
             Some err \<Rightarrow> Some (Error (''invalid parse instructions: '' @ Error_msg err))
           | None \<Rightarrow> None))"

text \<open>The zero values \<^verbatim>\<open>&YandexSearchOpts{}\<close> and \<^verbatim>\<open>&YandexUrlOpts{}\<close>.\<close>

definition YandexSearchOpts_zero :: YandexSearchOpts where
  "YandexSearchOpts_zero =
     \<lparr>Domain = [], StartPage = 0, Pages = 0, Limit = 0, Locale = [], GeoLocation = [],
      UserAgent = [], CallbackUrl = [], ParseInstructions = None, PollInterval = 0\<rparr>"

definition YandexUrlOpts_zero :: YandexUrlOpts where
  "YandexUrlOpts_zero =
     \<lparr>Url_UserAgent = [], Url_Render = [], Url_CallbackUrl = [],
      Url_ParseInstructions = None, Url_PollInterval = 0\<rparr>"

text \<open>
  ``Prepare options'': the variadic \<^verbatim>\<open>opts ...*T\<close> is a list of nil-able pointers;
  \<^verbatim>\<open>opt\<close> starts as the zero value and is replaced by \<^verbatim>\<open>opts[len(opts)-1]\<close> when
  the list is non-empty and that element is not nil.
\<close>

definition prepareOptions :: "'a \<Rightarrow> 'a option list \<Rightarrow> 'a" where
  "prepareOptions zero opts =
     (if length opts > 0
      then (case opts ! (length opts - 1) of Some p \<Rightarrow> p | None \<Rightarrow> zero)
      else zero)"

text \<open>``Set defaults'' of the yandex-search entry points, and of the URL entry points.\<close>

definition setSearchDefaults :: "env \<Rightarrow> YandexSearchOpts \<Rightarrow> YandexSearchOpts" where
  "setSearchDefaults env opt =
     opt\<lparr>Domain := SetDefaultDomain (internal env) (Domain opt),
         StartPage := SetDefaultStartPage (internal env) (StartPage opt),
         Limit := SetDefaultLimit (internal env) (Limit opt) (DefaultLimit_SERP (internal env)),
         Pages := SetDefaultPages (internal env) (Pages opt),
         UserAgent := SetDefaultUserAgent (internal env) (UserAgent opt)\<rparr>"

definition setUrlDefaults :: "env \<Rightarrow> YandexUrlOpts \<Rightarrow> YandexUrlOpts" where
  "setUrlDefaults env opt =
     opt\<lparr>Url_UserAgent := SetDefaultUserAgent (internal env) (Url_UserAgent opt)\<rparr>"

text \<open>The map literals of ``Prepare payload''.\<close>

definition searchPayload :: "env \<Rightarrow> string \<Rightarrow> YandexSearchOpts \<Rightarrow> payload" where
  "searchPayload env query opt =
     [''source'' \<mapsto> JString (YandexSearch (ox env)),
      ''domain'' \<mapsto> JString (Domain opt),
      ''query'' \<mapsto> JString query,
      ''start_page'' \<mapsto> JInt (StartPage opt),
      ''pages'' \<mapsto> JInt (Pages opt),
      ''limit'' \<mapsto> JInt (Limit opt),
      ''locale'' \<mapsto> JString (Locale opt),
      ''geo_location'' \<mapsto> JString (GeoLocation opt),
      ''user_agent_type'' \<mapsto> JString (UserAgent opt),
      ''callback_url'' \<mapsto> JString (CallbackUrl opt)]"

definition urlPayload :: "env \<Rightarrow> string \<Rightarrow> YandexUrlOpts \<Rightarrow> payload" where
  "urlPayload env url opt =
     [''source'' \<mapsto> JString (YandexUrl (ox env)),
      ''url'' \<mapsto> JString url,
      ''user_agent_type'' \<mapsto> JString (Url_UserAgent opt),
      ''render'' \<mapsto> JString (Url_Render opt),
      ''callback_url'' \<mapsto> JString (Url_CallbackUrl opt)]"

section \<open>Package serp: entry points\<close>

text \<open>
  An entry point returns the pair of Go results together with the trace of what it did:
  the payload handed to \<^verbatim>\<open>json.Marshal\<close>, the calls of \<^verbatim>\<open>Req\<close> and
  \<^verbatim>\<open>GetJobID\<close>, each \<^verbatim>\<open>go\<close> statement, each channel receive with the value
  received, and the deferred \<^verbatim>\<open>cancel()\<close>. \<open>EvGoSendRespChan resp\<close> is the goroutine
  \<^verbatim>\<open>go func() { respChan <- resp }()\<close>, the only send on the caller-facing channel.
\<close>

datatype event =
    EvMarshal payload
  | EvReq Context bytes string
  | EvGetJobID bytes
  | EvGoPollJobStatus Context JobID Duration
  | EvRecvErrChan "error option"
  | EvRecvHttpRespChan HttpResponse
  | EvGoSendRespChan Resp
  | EvCancel

text \<open>The value of type \<^verbatim>\<open>chan *Resp\<close> made by the call: \<open>None\<close> is the nil channel.\<close>

datatype chan = respChan

text \<open>A call returns its results, or it blocks forever on a channel receive.\<close>

datatype 'a outcome = Returned 'a | Blocked

fun withTrace :: "event list \<Rightarrow> event list \<times> 'a \<Rightarrow> event list \<times> 'a" where
  "withTrace tr0 (tr, r) = (tr0 @ tr, r)"

text \<open>
  ``Req'' and ``Unmarshal the http Response'' of the synchronous client: the last two
  steps of \<^verbatim>\<open>(*SerpClient).ScrapeYandexSearchCtx\<close> and
  \<^verbatim>\<open>(*SerpClient).ScrapeYandexUrlCtx\<close>, which are the same text.
\<close>

definition reqGetResp ::
  "env \<Rightarrow> Context \<Rightarrow> bytes \<Rightarrow> bool \<Rightarrow> event list \<times> (Resp option \<times> error option)" where
  "reqGetResp env ctx jsonPayload customParserFlag =
     (case Req (C env) ctx jsonPayload ''POST'' of
        Inl err \<Rightarrow> ([EvReq ctx jsonPayload ''POST''], (None, Some err))
      | Inr httpResp \<Rightarrow>
          (case GetResp env httpResp customParserFlag customParserFlag of
             Inl err \<Rightarrow> ([EvReq ctx jsonPayload ''POST''], (None, Some err))
           | Inr resp \<Rightarrow> ([EvReq ctx jsonPayload ''POST''], (Some resp, None))))"

text \<open>\<^verbatim>\<open>(*SerpClient).ScrapeYandexSearchCtx\<close>.\<close>

definition ScrapeYandexSearchCtx ::
  "env \<Rightarrow> Context \<Rightarrow> string \<Rightarrow> YandexSearchOpts option list
     \<Rightarrow> event list \<times> (Resp option \<times> error option)" where
  "ScrapeYandexSearchCtx env ctx query opts =
     (let opt = setSearchDefaults env (prepareOptions YandexSearchOpts_zero opts) in
      case checkParameterValidity env opt of
        Some err \<Rightarrow> ([], (None, Some err))
      | None \<Rightarrow>
          (let payload0 = searchPayload env query opt;
               payload = (case ParseInstructions opt of
                            None \<Rightarrow> payload0
                          | Some instructions \<Rightarrow>
                              payload0(''parse'' \<mapsto> JBool True,
                                       ''parsing_instructions'' \<mapsto> JMap instructions));
               customParserFlag = (ParseInstructions opt \<noteq> None)
           in case json_Marshal env payload of
                Inl err \<Rightarrow>
                  ([EvMarshal payload],
                   (None, Some (Error (''error marshalling payload: '' @ Error_msg err))))
              | Inr jsonPayload \<Rightarrow>
                  withTrace [EvMarshal payload]
                    (reqGetResp env ctx jsonPayload customParserFlag)))"

text \<open>
  \<^verbatim>\<open>(*SerpClient).ScrapeYandexSearch\<close>: the context is
  \<^verbatim>\<open>context.WithTimeout(context.Background(), internal.DefaultTimeout)\<close>, and the
  deferred \<^verbatim>\<open>cancel()\<close> runs when the call returns.
\<close>

definition ScrapeYandexSearch ::
  "env \<Rightarrow> string \<Rightarrow> YandexSearchOpts option list
     \<Rightarrow> event list \<times> (Resp option \<times> error option)" where
  "ScrapeYandexSearch env query opts =
     (let ctx = WithTimeout Background (DefaultTimeout (internal env));
          (tr, r) = ScrapeYandexSearchCtx env ctx query opts
      in (tr @ [EvCancel], r))"

text \<open>\<^verbatim>\<open>(*SerpClient).ScrapeYandexUrlCtx\<close>.\<close>

definition ScrapeYandexUrlCtx ::
  "env \<Rightarrow> Context \<Rightarrow> string \<Rightarrow> YandexUrlOpts option list
     \<Rightarrow> event list \<times> (Resp option \<times> error option)" where
  "ScrapeYandexUrlCtx env ctx url opts =
     (case ValidateUrl (url_ParseRequestURI env) url ''yandex'' of
        Some err \<Rightarrow> ([], (None, Some err))
      | None \<Rightarrow>
          (let opt = setUrlDefaults env (prepareOptions YandexUrlOpts_zero opts) in
           case checkParameterValidity_Url env opt of
             Some err \<Rightarrow> ([], (None, Some err))
           | None \<Rightarrow>
               (let payload0 = urlPayload env url opt;
                    payload = (case Url_ParseInstructions opt of
                                 None \<Rightarrow> payload0
                               | Some instructions \<Rightarrow>
                                   payload0(''parse'' \<mapsto> JBool True,
                                            ''parsing_instructions'' \<mapsto> JMap instructions));
                    customParserFlag = (Url_ParseInstructions opt \<noteq> None)
                in case json_Marshal env payload of
                     Inl err \<Rightarrow>
                       ([EvMarshal payload],
                        (None, Some (Error (''error marshalling payload: '' @ Error_msg err))))
                   | Inr jsonPayload \<Rightarrow>
                       withTrace [EvMarshal payload]
                         (reqGetResp env ctx jsonPayload customParserFlag))))"

text \<open>\<^verbatim>\<open>(*SerpClient).ScrapeYandexUrl\<close>.\<close>

definition ScrapeYandexUrl ::
  "env \<Rightarrow> string \<Rightarrow> YandexUrlOpts option list
     \<Rightarrow> event list \<times> (Resp option \<times> error option)" where
  "ScrapeYandexUrl env url opts =
     (let ctx = WithTimeout Background (DefaultTimeout (internal env));
          (tr, r) = ScrapeYandexUrlCtx env ctx url opts
      in (tr @ [EvCancel], r))"

section \<open>Package serp: entry points of the polling client\<close>

text \<open>
  A receive on an unbuffered channel completes with the sender's next send when that send
  is on the same channel. The poller is the only sender on \<^verbatim>\<open>errChan\<close> and
  \<^verbatim>\<open>httpRespChan\<close>: when it has no send left, or its next send is on the other
  channel (where nobody receives), the receive never completes.
\<close>

fun recvErrChan :: "send list \<Rightarrow> (error option \<times> send list) option" where
  "recvErrChan [] = None"
| "recvErrChan (SendErrChan err # rest) = Some (err, rest)"
| "recvErrChan (SendHttpRespChan httpResp # rest) = None"

fun recvHttpRespChan :: "send list \<Rightarrow> (HttpResponse \<times> send list) option" where
  "recvHttpRespChan [] = None"
| "recvHttpRespChan (SendHttpRespChan httpResp # rest) = Some (httpResp, rest)"
| "recvHttpRespChan (SendErrChan err # rest) = None"

text \<open>
  ``Get the job ID'', ``Poll job status'', ``Handle error'', ``Unmarshal the http
  Response'' and the forwarding goroutine: the steps after ``Marshal'' of
  \<^verbatim>\<open>(*SerpClientAsync).ScrapeYandexSearchCtx\<close> and
  \<^verbatim>\<open>(*SerpClientAsync).ScrapeYandexUrlCtx\<close>, which are the same text.
  \<^verbatim>\<open>GetJobID\<close> is called with the marshalled payload only. The three channels are
  made with \<^verbatim>\<open>make\<close> as the entry point starts, all unbuffered; \<^verbatim>\<open>httpRespChan\<close>
  and \<^verbatim>\<open>errChan\<close> are handed to the poller, and \<^verbatim>\<open>respChan\<close> leaves the call only
  as the first result of its last \<^verbatim>\<open>return\<close>.
\<close>

definition getJobIDPollForward ::
  "env \<Rightarrow> Context \<Rightarrow> bytes \<Rightarrow> Duration \<Rightarrow> bool
     \<Rightarrow> event list \<times> (chan option \<times> error option) outcome" where
  "getJobIDPollForward env ctx jsonPayload pollInterval customParserFlag =
     (case GetJobID (C env) jsonPayload of
        Inl err \<Rightarrow> ([EvGetJobID jsonPayload], Returned (None, Some err))
      | Inr jobID \<Rightarrow>
          (let started = [EvGetJobID jsonPayload, EvGoPollJobStatus ctx jobID pollInterval] in
           case recvErrChan (PollJobStatus (C env) ctx jobID pollInterval) of
             None \<Rightarrow> (started, Blocked)
           | Some (Some err, rest) \<Rightarrow>
               (started @ [EvRecvErrChan (Some err)], Returned (None, Some err))
           | Some (None, rest) \<Rightarrow>
               (case recvHttpRespChan rest of
                  None \<Rightarrow> (started @ [EvRecvErrChan None], Blocked)
                | Some (httpResp, rest') \<Rightarrow>
                    (case GetResp env httpResp customParserFlag customParserFlag of
                       Inl err \<Rightarrow>
                         (started @ [EvRecvErrChan None, EvRecvHttpRespChan httpResp],
                          Returned (None, Some err))
                     | Inr resp \<Rightarrow>
                         (started @ [EvRecvErrChan None, EvRecvHttpRespChan httpResp,
                                     EvGoSendRespChan resp],
                          Returned (Some respChan, None))))))"

text \<open>
  \<^verbatim>\<open>(*SerpClientAsync).ScrapeYandexSearchCtx\<close>. The payload handed to
  \<^verbatim>\<open>json.Marshal\<close> gets the key \<^verbatim>\<open>parsing_instructions\<close> only; the assignment
  \<^verbatim>\<open>payload["parse"] = true\<close> stands in the branch taken when marshalling has failed,
  after which the payload is not used again.
\<close>

definition ScrapeYandexSearchCtx_Async ::
  "env \<Rightarrow> Context \<Rightarrow> string \<Rightarrow> YandexSearchOpts option list
     \<Rightarrow> event list \<times> (chan option \<times> error option) outcome" where
  "ScrapeYandexSearchCtx_Async env ctx query opts =
     (let opt = setSearchDefaults env (prepareOptions YandexSearchOpts_zero opts) in
      case checkParameterValidity env opt of
        Some err \<Rightarrow> ([], Returned (None, Some err))
      | None \<Rightarrow>
          (let payload0 = searchPayload env query opt;
               payload = (case ParseInstructions opt of
                            None \<Rightarrow> payload0
                          | Some instructions \<Rightarrow>
                              payload0(''parsing_instructions'' \<mapsto> JMap instructions));
               customParserFlag = (ParseInstructions opt \<noteq> None)
           in case json_Marshal env payload of
                Inl err \<Rightarrow>
                  ([EvMarshal payload],
                   Returned (None, Some (Error (''error marshalling payload: '' @ Error_msg err))))
              | Inr jsonPayload \<Rightarrow>
                  withTrace [EvMarshal payload]
                    (getJobIDPollForward env ctx jsonPayload (PollInterval opt)
                       customParserFlag)))"

text \<open>
  The deferred \<^verbatim>\<open>cancel()\<close> of the entry points without a context argument runs
  when the call returns, so not when the call blocks forever.
\<close>

fun deferCancel :: "event list \<times> 'a outcome \<Rightarrow> event list \<times> 'a outcome" where
  "deferCancel (tr, Returned r) = (tr @ [EvCancel], Returned r)"
| "deferCancel (tr, Blocked) = (tr, Blocked)"

text \<open>\<^verbatim>\<open>(*SerpClientAsync).ScrapeYandexSearch\<close>.\<close>

definition ScrapeYandexSearch_Async ::
  "env \<Rightarrow> string \<Rightarrow> YandexSearchOpts option list
     \<Rightarrow> event list \<times> (chan option \<times> error option) outcome" where
  "ScrapeYandexSearch_Async env query opts =
     (let ctx = WithTimeout Background (DefaultTimeout (internal env))
      in deferCancel (ScrapeYandexSearchCtx_Async env ctx query opts))"

text \<open>\<^verbatim>\<open>(*SerpClientAsync).ScrapeYandexUrlCtx\<close>.\<close>

definition ScrapeYandexUrlCtx_Async ::
  "env \<Rightarrow> Context \<Rightarrow> string \<Rightarrow> YandexUrlOpts option list
     \<Rightarrow> event list \<times> (chan option \<times> error option) outcome" where
  "ScrapeYandexUrlCtx_Async env ctx url opts =
     (case ValidateUrl (url_ParseRequestURI env) url ''yandex'' of
        Some err \<Rightarrow> ([], Returned (None, Some err))
      | None \<Rightarrow>
          (let opt = setUrlDefaults env (prepareOptions YandexUrlOpts_zero opts) in
           case checkParameterValidity_Url env opt of
             Some err \<Rightarrow> ([], Returned (None, Some err))
           | None \<Rightarrow>
               (let payload0 = urlPayload env url opt;
                    payload = (case Url_ParseInstructions opt of
                                 None \<Rightarrow> payload0
                               | Some instructions \<Rightarrow>
                                   payload0(''parse'' \<mapsto> JBool True,
                                            ''parsing_instructions'' \<mapsto> JMap instructions));
                    customParserFlag = (Url_ParseInstructions opt \<noteq> None)
                in case json_Marshal env payload of
                     Inl err \<Rightarrow>
                       ([EvMarshal payload],
                        Returned
                          (None, Some (Error (''error marshalling payload: '' @ Error_msg err))))
                   | Inr jsonPayload \<Rightarrow>
                       withTrace [EvMarshal payload]
                         (getJobIDPollForward env ctx jsonPayload (Url_PollInterval opt)
                            customParserFlag))))"

text \<open>\<^verbatim>\<open>(*SerpClientAsync).ScrapeYandexUrl\<close>.\<close>

definition ScrapeYandexUrl_Async ::
  "env \<Rightarrow> string \<Rightarrow> YandexUrlOpts option list
     \<Rightarrow> event list \<times> (chan option \<times> error option) outcome" where
  "ScrapeYandexUrl_Async env url opts =
     (let ctx = WithTimeout Background (DefaultTimeout (internal env))
      in deferCancel (ScrapeYandexUrlCtx_Async env ctx url opts))"

section \<open>A concrete environment\<close>

text \<open>
  Concrete collaborators, used where the model is evaluated at an input: the remote
  service accepts every job, the poller sends the error of a context that is done and
  otherwise reports success on \<^verbatim>\<open>errChan\<close> and then delivers one response, and the
  URL parser knows two addresses.
\<close>

definition demo_oxylabs :: oxylabs where
  "demo_oxylabs =
     \<lparr>DOMAIN_COM = ''com'', DOMAIN_RU = ''ru'', DOMAIN_UA = ''ua'', DOMAIN_BY = ''by'',
      DOMAIN_KZ = ''kz'', DOMAIN_TR = ''tr'',
      LOCALE_EN = ''en'', LOCALE_RU = ''ru'', LOCALE_BY = ''by'', LOCALE_DE = ''de'',
      LOCALE_FR = ''fr'', LOCALE_ID = ''id'', LOCALE_KK = ''kk'', LOCALE_TT = ''tt'',
      LOCALE_TR = ''tr'', LOCALE_UK = ''uk'',
      YandexSearch = ''yandex_search'', YandexUrl = ''yandex'',
      IsUserAgentValid = (\<lambda>ua. ua = ''desktop''),
      IsRenderValid = (\<lambda>r. r = ''html''),
      ValidateParseInstructions = (\<lambda>instructions. None)\<rparr>"

definition demo_internal :: internal_pkg where
  "demo_internal =
     \<lparr>DefaultTimeout = 50000000000, DefaultLimit_SERP = 10,
      SetDefaultDomain = (\<lambda>d. if d = [] then ''com'' else d),
      SetDefaultStartPage = (\<lambda>n. if n = 0 then 1 else n),
      SetDefaultLimit = (\<lambda>n dflt. if n = 0 then dflt else n),
      SetDefaultPages = (\<lambda>n. if n = 0 then 1 else n),
      SetDefaultUserAgent = (\<lambda>ua. if ua = [] then ''desktop'' else ua)\<rparr>"

definition demo_httpResp :: HttpResponse where
  "demo_httpResp = \<lparr>StatusCode = 200, Body = ''{}''\<rparr>"

definition demo_Client :: Client where
  "demo_Client =
     \<lparr>Req = (\<lambda>ctx body method. Inr demo_httpResp),
      GetJobID = (\<lambda>body. Inr ''job-1''),
      PollJobStatus =
        (\<lambda>ctx jobID interval.
           case ctx_Err ctx of
             Some err \<Rightarrow> [SendErrChan (Some err)]
           | None \<Rightarrow> [SendErrChan None, SendHttpRespChan demo_httpResp])\<rparr>"

definition demo_ParseRequestURI :: "string \<Rightarrow> error + URL" where
  "demo_ParseRequestURI u =
     (if u = ''https://notyandex.example.com/search''
        then Inr \<lparr>Scheme = ''https'', Host = ''notyandex.example.com''\<rparr>
      else if u = ''https://example.com/''
        then Inr \<lparr>Scheme = ''https'', Host = ''example.com''\<rparr>
      else Inl (Error ''invalid URI for request''))"

definition demo_env :: env where
  "demo_env =
     \<lparr>ox = demo_oxylabs, internal = demo_internal, C = demo_Client,
      json_Marshal = (\<lambda>payload. Inr ''{}''),
      url_ParseRequestURI = demo_ParseRequestURI,
      GetResp = (\<lambda>httpResp parse custom. Inr \<lparr>Parsed = parse, Content = Body httpResp\<rparr>)\<rparr>"

text \<open>Options with parse instructions, and options with a limit of \<open>-1\<close>.\<close>

definition demo_opts_parse :: YandexSearchOpts where
  "demo_opts_parse =
     YandexSearchOpts_zero\<lparr>ParseInstructions := Some [(''title'', JString ''//h1'')]\<rparr>"

definition demo_opts_bad :: YandexSearchOpts where
  "demo_opts_bad = YandexSearchOpts_zero\<lparr>Limit := - 1\<rparr>"

definition demo_env_submitFails :: env where
  "demo_env_submitFails =
     demo_env\<lparr>C := demo_Client\<lparr>GetJobID := (\<lambda>body. Inl (Error ''status 500''))\<rparr>\<rparr>"

text \<open>URL options with a render value that the demo validator rejects.\<close>

definition demo_url_opts_bad :: YandexUrlOpts where
  "demo_url_opts_bad = YandexUrlOpts_zero\<lparr>Url_Render := ''pdf''\<rparr>"

text \<open>Environments whose poller sends an error, and whose poller sends nothing.\<close>

definition demo_env_pollFails :: env where
  "demo_env_pollFails =
     demo_env\<lparr>C := demo_Client\<lparr>PollJobStatus :=
       (\<lambda>ctx jobID interval. [SendErrChan (Some (Error ''job faulted''))])\<rparr>\<rparr>"


section \<open>Reading a trace\<close>

text \<open>
  Projections of a trace: the values forwarded on the caller-facing channel, the values
  received from \<^verbatim>\<open>errChan\<close> and from \<^verbatim>\<open>httpRespChan\<close>, the pollers started,
  the payloads submitted with \<^verbatim>\<open>GetJobID\<close>, and the events after the \<^verbatim>\<open>go\<close>
  statement that starts the poller.
\<close>

fun forwarded :: "event list \<Rightarrow> Resp list" where
  "forwarded [] = []"
| "forwarded (EvGoSendRespChan resp # tr) = resp # forwarded tr"
| "forwarded (ev # tr) = forwarded tr"

fun errReads :: "event list \<Rightarrow> error option list" where
  "errReads [] = []"
| "errReads (EvRecvErrChan err # tr) = err # errReads tr"
| "errReads (ev # tr) = errReads tr"

fun httpRespReads :: "event list \<Rightarrow> HttpResponse list" where
  "httpRespReads [] = []"
| "httpRespReads (EvRecvHttpRespChan httpResp # tr) = httpResp # httpRespReads tr"
| "httpRespReads (ev # tr) = httpRespReads tr"

fun pollersStarted :: "event list \<Rightarrow> (Context \<times> JobID \<times> Duration) list" where
  "pollersStarted [] = []"
| "pollersStarted (EvGoPollJobStatus ctx jobID interval # tr) =
     (ctx, jobID, interval) # pollersStarted tr"
| "pollersStarted (ev # tr) = pollersStarted tr"

fun submissions :: "event list \<Rightarrow> bytes list" where
  "submissions [] = []"
| "submissions (EvGetJobID body # tr) = body # submissions tr"
| "submissions (ev # tr) = submissions tr"

fun requests :: "event list \<Rightarrow> (Context \<times> bytes \<times> string) list" where
  "requests [] = []"
| "requests (EvReq ctx body method # tr) = (ctx, body, method) # requests tr"
| "requests (ev # tr) = requests tr"

text \<open>
  The payloads handed to \<^verbatim>\<open>json.Marshal\<close>, and the contexts handed to \<^verbatim>\<open>Req\<close>
  and to \<^verbatim>\<open>PollJobStatus\<close>.
\<close>

fun marshalled :: "event list \<Rightarrow> payload list" where
  "marshalled [] = []"
| "marshalled (EvMarshal payload # tr) = payload # marshalled tr"
| "marshalled (ev # tr) = marshalled tr"

fun contextsUsed :: "event list \<Rightarrow> Context list" where
  "contextsUsed [] = []"
| "contextsUsed (EvReq ctx body method # tr) = ctx # contextsUsed tr"
| "contextsUsed (EvGoPollJobStatus ctx jobID interval # tr) = ctx # contextsUsed tr"
| "contextsUsed (ev # tr) = contextsUsed tr"

fun afterPollerStart :: "event list \<Rightarrow> event list" where
  "afterPollerStart [] = []"
| "afterPollerStart (EvGoPollJobStatus ctx jobID interval # tr) = tr"
| "afterPollerStart (ev # tr) = afterPollerStart tr"

section \<open>Properties of a call, as predicates\<close>


text \<open>
  \<open>errBeforeResult seen tr\<close> scans a trace: every receive from \<^verbatim>\<open>httpRespChan\<close>
  comes after a receive of nil from \<^verbatim>\<open>errChan\<close> (\<open>seen\<close> tells whether one came
  before the trace).
\<close>

fun errBeforeResult :: "bool \<Rightarrow> event list \<Rightarrow> bool" where
  "errBeforeResult seen [] = True"
| "errBeforeResult seen (EvRecvErrChan None # tr) = errBeforeResult True tr"
| "errBeforeResult seen (EvRecvHttpRespChan httpResp # tr) = (seen \<and> errBeforeResult seen tr)"
| "errBeforeResult seen (ev # tr) = errBeforeResult seen tr"

text \<open>
  \<open>errorHandshake env call\<close> ties what the call does to what the poller it started
  sends (\<open>PollJobStatus (C env)\<close> at the arguments of the \<^verbatim>\<open>go\<close> statement). A call
  that starts no poller receives nothing from \<^verbatim>\<open>errChan\<close>; no call starts two. When
  the poller's first send is an error on \<^verbatim>\<open>errChan\<close>, the call receives exactly that
  one value, after the \<^verbatim>\<open>go\<close> statement, and returns the nil channel and that same
  error, having received nothing from \<^verbatim>\<open>httpRespChan\<close> and forwarded nothing. When
  the first send is nil on \<^verbatim>\<open>errChan\<close>, the call receives exactly that one value,
  after the \<^verbatim>\<open>go\<close> statement. When the poller sends nothing, or sends on
  \<^verbatim>\<open>httpRespChan\<close> first, the call does not return and has received nothing.
\<close>

definition errorHandshake ::
  "env \<Rightarrow> event list \<times> (chan option \<times> error option) outcome \<Rightarrow> bool" where
  "errorHandshake env call =
     (case pollersStarted (fst call) of
        [] \<Rightarrow> errReads (fst call) = []
      | [(ctx, jobID, interval)] \<Rightarrow>
          (case PollJobStatus (C env) ctx jobID interval of
             SendErrChan (Some err) # rest \<Rightarrow>
               snd call = Returned (None, Some err) \<and>
               errReads (fst call) = [Some err] \<and>
               errReads (afterPollerStart (fst call)) = [Some err] \<and>
               httpRespReads (fst call) = [] \<and>
               forwarded (fst call) = []
           | SendErrChan None # rest \<Rightarrow>
               errReads (fst call) = [None] \<and>
               errReads (afterPollerStart (fst call)) = [None]
           | _ \<Rightarrow> snd call = Blocked \<and> errReads (fst call) = [])
      | _ \<Rightarrow> False)"

text \<open>
  \<open>errSinkFirst\<close>: wherever the trace has a receive from \<^verbatim>\<open>httpRespChan\<close>, a
  receive of nil from \<^verbatim>\<open>errChan\<close> stands before it.
\<close>

definition errSinkFirst :: "event list \<Rightarrow> bool" where
  "errSinkFirst tr \<longleftrightarrow>
     (\<forall>pre httpResp post. tr = pre @ EvRecvHttpRespChan httpResp # post
        \<longrightarrow> EvRecvErrChan None \<in> set pre)"


text \<open>
  \<open>lastOptionOnly zero f\<close>: an entry point \<open>f\<close>, as a function of its variadic
  options, gives the same trace and results for a list as for its last element alone, and
  for the empty list or a nil pointer as for the zero value.
\<close>

definition lastOptionOnly :: "'a \<Rightarrow> ('a option list \<Rightarrow> 'b) \<Rightarrow> bool" where
  "lastOptionOnly zero f \<longleftrightarrow>
     (\<forall>earlier opt. f (earlier @ [opt]) = f [opt]) \<and>
     f [] = f [Some zero] \<and> f [None] = f [Some zero]"


section \<open>Properties\<close>

lemma InList_set: "InList val list \<longleftrightarrow> val \<in> set list"
  by (induction list) auto

lemma Contains_sublist: "Contains s substr \<longleftrightarrow> sublist substr s"
  by (induction s) (auto simp: sublist_Cons_right)

lemmas entry_defs =
  ScrapeYandexSearchCtx_def ScrapeYandexSearch_def ScrapeYandexUrlCtx_def ScrapeYandexUrl_def
  ScrapeYandexSearchCtx_Async_def ScrapeYandexSearch_Async_def
  ScrapeYandexUrlCtx_Async_def ScrapeYandexUrl_Async_def
  reqGetResp_def getJobIDPollForward_def
  setSearchDefaults_def setUrlDefaults_def prepareOptions_def
  YandexSearchOpts_zero_def YandexUrlOpts_zero_def
  checkParameterValidity_def checkParameterValidity_Url_def
  YandexSearchAcceptedDomainParameters_def YandexSearchAcceptedLocaleParameters_def
  ValidateUrl_def Let_def

lemmas demo_defs =
  demo_env_def demo_oxylabs_def demo_internal_def demo_Client_def demo_httpResp_def
  demo_ParseRequestURI_def demo_opts_parse_def demo_opts_bad_def

lemma ScrapeYandexSearchCtx_Async_cases:
  fixes env ctx query opts
  defines "opt \<equiv> setSearchDefaults env (prepareOptions YandexSearchOpts_zero opts)"
  defines "payload \<equiv>
    (case ParseInstructions opt of
       None \<Rightarrow> searchPayload env query opt
     | Some instructions \<Rightarrow>
         (searchPayload env query opt)(''parsing_instructions'' \<mapsto> JMap instructions))"
  obtains
    (invalid) err where
      "checkParameterValidity env opt = Some err"
      "ScrapeYandexSearchCtx_Async env ctx query opts = ([], Returned (None, Some err))"
  | (marshalFailed) err where
      "checkParameterValidity env opt = None"
      "json_Marshal env payload = Inl err"
      "ScrapeYandexSearchCtx_Async env ctx query opts =
         ([EvMarshal payload],
          Returned (None, Some (Error (''error marshalling payload: '' @ Error_msg err))))"
  | (marshalled) jsonPayload where
      "checkParameterValidity env opt = None"
      "json_Marshal env payload = Inr jsonPayload"
      "ScrapeYandexSearchCtx_Async env ctx query opts =
         withTrace [EvMarshal payload]
           (getJobIDPollForward env ctx jsonPayload (PollInterval opt)
              (ParseInstructions opt \<noteq> None))"
proof (cases "checkParameterValidity env opt")
  case (Some err)
  then have "ScrapeYandexSearchCtx_Async env ctx query opts = ([], Returned (None, Some err))"
    by (simp add: ScrapeYandexSearchCtx_Async_def opt_def)
  with Some show thesis by (rule invalid)
next
  case None
  show thesis
  proof (cases "json_Marshal env payload")
    case (Inl err)
    with None have "ScrapeYandexSearchCtx_Async env ctx query opts =
         ([EvMarshal payload],
          Returned (None, Some (Error (''error marshalling payload: '' @ Error_msg err))))"
      unfolding ScrapeYandexSearchCtx_Async_def opt_def payload_def Let_def by simp
    with None Inl show thesis by (rule marshalFailed)
  next
    case (Inr jsonPayload)
    with None have "ScrapeYandexSearchCtx_Async env ctx query opts =
         withTrace [EvMarshal payload]
           (getJobIDPollForward env ctx jsonPayload (PollInterval opt)
              (ParseInstructions opt \<noteq> None))"
      unfolding ScrapeYandexSearchCtx_Async_def opt_def payload_def Let_def by simp
    with None Inr show thesis by (rule marshalled)
  qed
qed

lemma ScrapeYandexUrlCtx_Async_cases:
  fixes env ctx url opts
  defines "opt \<equiv> setUrlDefaults env (prepareOptions YandexUrlOpts_zero opts)"
  defines "payload \<equiv>
    (case Url_ParseInstructions opt of
       None \<Rightarrow> urlPayload env url opt
     | Some instructions \<Rightarrow>
         (urlPayload env url opt)(''parse'' \<mapsto> JBool True,
                                  ''parsing_instructions'' \<mapsto> JMap instructions))"
  obtains
    (invalidUrl) err where
      "ValidateUrl (url_ParseRequestURI env) url ''yandex'' = Some err"
      "ScrapeYandexUrlCtx_Async env ctx url opts = ([], Returned (None, Some err))"
  | (invalid) err where
      "ValidateUrl (url_ParseRequestURI env) url ''yandex'' = None"
      "checkParameterValidity_Url env opt = Some err"
      "ScrapeYandexUrlCtx_Async env ctx url opts = ([], Returned (None, Some err))"
  | (marshalFailed) err where
      "ValidateUrl (url_ParseRequestURI env) url ''yandex'' = None"
      "checkParameterValidity_Url env opt = None"
      "json_Marshal env payload = Inl err"
      "ScrapeYandexUrlCtx_Async env ctx url opts =
         ([EvMarshal payload],
          Returned (None, Some (Error (''error marshalling payload: '' @ Error_msg err))))"
  | (marshalled) jsonPayload where
      "ValidateUrl (url_ParseRequestURI env) url ''yandex'' = None"
      "checkParameterValidity_Url env opt = None"
      "json_Marshal env payload = Inr jsonPayload"
      "ScrapeYandexUrlCtx_Async env ctx url opts =
         withTrace [EvMarshal payload]
           (getJobIDPollForward env ctx jsonPayload (Url_PollInterval opt)
              (Url_ParseInstructions opt \<noteq> None))"
proof (cases "ValidateUrl (url_ParseRequestURI env) url ''yandex''")
  case (Some err)
  then have "ScrapeYandexUrlCtx_Async env ctx url opts = ([], Returned (None, Some err))"
    by (simp add: ScrapeYandexUrlCtx_Async_def)
  with Some show thesis by (rule invalidUrl)
next
  case urlOk: None
  show thesis
  proof (cases "checkParameterValidity_Url env opt")
    case (Some err)
    with urlOk have "ScrapeYandexUrlCtx_Async env ctx url opts = ([], Returned (None, Some err))"
      by (simp add: ScrapeYandexUrlCtx_Async_def opt_def)
    with urlOk Some show thesis by (rule invalid)
  next
    case None
    show thesis
    proof (cases "json_Marshal env payload")
      case (Inl err)
      with urlOk None have "ScrapeYandexUrlCtx_Async env ctx url opts =
         ([EvMarshal payload],
          Returned (None, Some (Error (''error marshalling payload: '' @ Error_msg err))))"
        unfolding ScrapeYandexUrlCtx_Async_def opt_def payload_def Let_def by simp
      with urlOk None Inl show thesis by (rule marshalFailed)
    next
      case (Inr jsonPayload)
      with urlOk None have "ScrapeYandexUrlCtx_Async env ctx url opts =
         withTrace [EvMarshal payload]
           (getJobIDPollForward env ctx jsonPayload (Url_PollInterval opt)
              (Url_ParseInstructions opt \<noteq> None))"
        unfolding ScrapeYandexUrlCtx_Async_def opt_def payload_def Let_def by simp
      with urlOk None Inr show thesis by (rule marshalled)
    qed
  qed
qed

lemma getJobIDPollForward_cases:
  obtains
    (submitFailed) err where
      "GetJobID (C env) jsonPayload = Inl err"
      "getJobIDPollForward env ctx jsonPayload interval flag =
         ([EvGetJobID jsonPayload], Returned (None, Some err))"
  | (noErrValue) jobID where
      "GetJobID (C env) jsonPayload = Inr jobID"
      "recvErrChan (PollJobStatus (C env) ctx jobID interval) = None"
      "getJobIDPollForward env ctx jsonPayload interval flag =
         ([EvGetJobID jsonPayload, EvGoPollJobStatus ctx jobID interval], Blocked)"
  | (pollFailed) jobID err rest where
      "GetJobID (C env) jsonPayload = Inr jobID"
      "recvErrChan (PollJobStatus (C env) ctx jobID interval) = Some (Some err, rest)"
      "getJobIDPollForward env ctx jsonPayload interval flag =
         ([EvGetJobID jsonPayload, EvGoPollJobStatus ctx jobID interval,
           EvRecvErrChan (Some err)], Returned (None, Some err))"
  | (noResponse) jobID rest where
      "GetJobID (C env) jsonPayload = Inr jobID"
      "recvErrChan (PollJobStatus (C env) ctx jobID interval) = Some (None, rest)"
      "recvHttpRespChan rest = None"
      "getJobIDPollForward env ctx jsonPayload interval flag =
         ([EvGetJobID jsonPayload, EvGoPollJobStatus ctx jobID interval,
           EvRecvErrChan None], Blocked)"
  | (respFailed) jobID rest httpResp rest' err where
      "GetJobID (C env) jsonPayload = Inr jobID"
      "recvErrChan (PollJobStatus (C env) ctx jobID interval) = Some (None, rest)"
      "recvHttpRespChan rest = Some (httpResp, rest')"
      "GetResp env httpResp flag flag = Inl err"
      "getJobIDPollForward env ctx jsonPayload interval flag =
         ([EvGetJobID jsonPayload, EvGoPollJobStatus ctx jobID interval,
           EvRecvErrChan None, EvRecvHttpRespChan httpResp], Returned (None, Some err))"
  | (delivered) jobID rest httpResp rest' resp where
      "GetJobID (C env) jsonPayload = Inr jobID"
      "recvErrChan (PollJobStatus (C env) ctx jobID interval) = Some (None, rest)"
      "recvHttpRespChan rest = Some (httpResp, rest')"
      "GetResp env httpResp flag flag = Inr resp"
      "getJobIDPollForward env ctx jsonPayload interval flag =
         ([EvGetJobID jsonPayload, EvGoPollJobStatus ctx jobID interval,
           EvRecvErrChan None, EvRecvHttpRespChan httpResp, EvGoSendRespChan resp],
          Returned (Some respChan, None))"
proof (cases "GetJobID (C env) jsonPayload")
  case (Inl err)
  then show thesis
    using submitFailed [of err] by (simp add: getJobIDPollForward_def)
next
  case job: (Inr jobID)
  show thesis
  proof (cases "recvErrChan (PollJobStatus (C env) ctx jobID interval)")
    case None
    with job show thesis
      using noErrValue [of jobID] by (simp add: getJobIDPollForward_def)
  next
    case (Some received)
    obtain errValue rest where received: "received = (errValue, rest)"
      by (cases received)
    show thesis
    proof (cases errValue)
      case (Some err)
      with job \<open>recvErrChan _ = Some received\<close> received show thesis
        using pollFailed [of jobID err rest] by (simp add: getJobIDPollForward_def)
    next
      case None
      note nilErr = job \<open>recvErrChan _ = Some received\<close> received None
      show thesis
      proof (cases "recvHttpRespChan rest")
        case None
        with nilErr show thesis
          using noResponse [of jobID rest] by (simp add: getJobIDPollForward_def)
      next
        case (Some got)
        obtain httpResp rest' where got: "got = (httpResp, rest')"
          by (cases got)
        show thesis
        proof (cases "GetResp env httpResp flag flag")
          case (Inl err)
          with nilErr Some got show thesis
            using respFailed [of jobID rest httpResp rest' err] by (simp add: getJobIDPollForward_def)
        next
          case (Inr resp)
          with nilErr Some got show thesis
            using delivered [of jobID rest httpResp rest' resp] by (simp add: getJobIDPollForward_def)
        qed
      qed
    qed
  qed
qed

lemma getJobIDPollForward_submissions:
  "submissions (fst (getJobIDPollForward env ctx jsonPayload interval flag)) = [jsonPayload]"
  by (cases rule: getJobIDPollForward_cases [where env = env and ctx = ctx and jsonPayload = jsonPayload and interval = interval and flag = flag]) simp_all

lemma getJobIDPollForward_submitFailed:
  assumes "GetJobID (C env) jsonPayload = Inl err"
  shows "getJobIDPollForward env ctx jsonPayload interval flag =
           ([EvGetJobID jsonPayload], Returned (None, Some err))"
  using assms by (simp add: getJobIDPollForward_def)

lemma submissions_mem: "body \<in> set (submissions tr) \<longleftrightarrow> EvGetJobID body \<in> set tr"
  by (induction tr rule: submissions.induct) auto


lemma errBeforeResult_sound:
  "errBeforeResult seen (pre @ EvRecvHttpRespChan httpResp # post)
     \<Longrightarrow> seen \<or> EvRecvErrChan None \<in> set pre"
proof (induction pre arbitrary: seen)
  case Nil
  then show ?case by simp
next
  case (Cons ev pre)
  show ?case
  proof (cases ev)
    case (EvRecvErrChan err)
    with Cons show ?thesis by (cases err) auto
  qed (use Cons in auto)
qed

lemma errSinkFirstI: "errBeforeResult False tr \<Longrightarrow> errSinkFirst tr"
  unfolding errSinkFirst_def using errBeforeResult_sound by blast

lemma errBeforeResult_cancel: "errBeforeResult seen (tr @ [EvCancel]) = errBeforeResult seen tr"
  by (induction seen tr rule: errBeforeResult.induct) simp_all

lemma forwarded_cancel: "forwarded (tr @ [EvCancel]) = forwarded tr"
  by (induction tr rule: forwarded.induct) simp_all

lemma errReads_cancel: "errReads (tr @ [EvCancel]) = errReads tr"
  by (induction tr rule: errReads.induct) simp_all

lemma httpRespReads_cancel: "httpRespReads (tr @ [EvCancel]) = httpRespReads tr"
  by (induction tr rule: httpRespReads.induct) simp_all

lemma pollersStarted_cancel: "pollersStarted (tr @ [EvCancel]) = pollersStarted tr"
  by (induction tr rule: pollersStarted.induct) simp_all

lemma afterPollerStart_cancel:
  "errReads (afterPollerStart (tr @ [EvCancel])) = errReads (afterPollerStart tr)"
  by (induction tr rule: afterPollerStart.induct) (simp_all add: errReads_cancel)

lemma recvErrChan_Some: "recvErrChan sends = Some (v, rest) \<longleftrightarrow> sends = SendErrChan v # rest"
  by (cases sends rule: recvErrChan.cases) auto

lemma recvErrChan_None:
  "recvErrChan sends = None \<longleftrightarrow>
     sends = [] \<or> (\<exists>httpResp rest. sends = SendHttpRespChan httpResp # rest)"
  by (cases sends rule: recvErrChan.cases) auto

lemmas cancel_simps =
  errBeforeResult_cancel forwarded_cancel errReads_cancel httpRespReads_cancel
  pollersStarted_cancel afterPollerStart_cancel


lemma tail_errBeforeResult:
  "errBeforeResult False (fst (getJobIDPollForward env ctx jsonPayload interval flag))"
  by (cases rule: getJobIDPollForward_cases [where env = env and ctx = ctx
        and jsonPayload = jsonPayload and interval = interval and flag = flag]) simp_all

lemma tail_errorHandshake:
  "errorHandshake env (withTrace [EvMarshal payload]
     (getJobIDPollForward env ctx jsonPayload interval flag))"
proof (cases rule: getJobIDPollForward_cases [where env = env and ctx = ctx
        and jsonPayload = jsonPayload and interval = interval and flag = flag])
  case (noErrValue jobID)
  then show ?thesis
    by (auto simp: errorHandshake_def recvErrChan_None)
qed (simp_all add: errorHandshake_def recvErrChan_Some)


lemma tail_forwarded_le1:
  "length (forwarded (fst (getJobIDPollForward env ctx jsonPayload interval flag))) \<le> 1"
  by (cases rule: getJobIDPollForward_cases [where env = env and ctx = ctx
        and jsonPayload = jsonPayload and interval = interval and flag = flag]) simp_all

lemma fst_withTrace: "fst (withTrace tr0 call) = tr0 @ fst call"
  by (cases call) simp

lemma snd_withTrace: "snd (withTrace tr0 call) = snd call"
  by (cases call) simp

lemma fst_deferCancel:
  "fst (deferCancel call) = (case snd call of Returned r \<Rightarrow> fst call @ [EvCancel] | Blocked \<Rightarrow> fst call)"
  by (cases call rule: deferCancel.cases) simp_all

lemma snd_deferCancel: "snd (deferCancel call) = snd call"
  by (cases call rule: deferCancel.cases) simp_all

lemma deferCancel_errorHandshake:
  "errorHandshake env (deferCancel call) = errorHandshake env call"
  by (cases call rule: deferCancel.cases)
     (simp_all add: errorHandshake_def cancel_simps afterPollerStart_cancel
        cong: list.case_cong prod.case_cong send.case_cong option.case_cong)


lemma deferCancel_errBeforeResult:
  "errBeforeResult seen (fst (deferCancel call)) = errBeforeResult seen (fst call)"
  by (cases call rule: deferCancel.cases) (simp_all add: cancel_simps)

lemma deferCancel_forwarded: "forwarded (fst (deferCancel call)) = forwarded (fst call)"
  by (cases call rule: deferCancel.cases) (simp_all add: cancel_simps)

lemma SearchCtx_Async_errorHandshake:
  "errorHandshake env (ScrapeYandexSearchCtx_Async env ctx query opts)"
proof (cases rule: ScrapeYandexSearchCtx_Async_cases
    [where env = env and ctx = ctx and query = query and opts = opts])
  case (marshalled jsonPayload)
  then show ?thesis by (simp only: tail_errorHandshake)
qed (simp_all add: errorHandshake_def)

lemma UrlCtx_Async_errorHandshake:
  "errorHandshake env (ScrapeYandexUrlCtx_Async env ctx url opts)"
proof (cases rule: ScrapeYandexUrlCtx_Async_cases
    [where env = env and ctx = ctx and url = url and opts = opts])
  case (marshalled jsonPayload)
  then show ?thesis by (simp only: tail_errorHandshake)
qed (simp_all add: errorHandshake_def)

lemma errorHandshake_propagates:
  assumes "errorHandshake env call"
    and "pollersStarted (fst call) = [(c, jobID, interval)]"
    and "PollJobStatus (C env) c jobID interval = SendErrChan (Some err) # rest"
  shows "snd call = Returned (None, Some err)"
  using assms by (simp add: errorHandshake_def)



lemma SearchCtx_Async_order:
  "errBeforeResult False (fst (ScrapeYandexSearchCtx_Async env ctx query opts)) \<and>
   length (forwarded (fst (ScrapeYandexSearchCtx_Async env ctx query opts))) \<le> 1"
proof (cases rule: ScrapeYandexSearchCtx_Async_cases
    [where env = env and ctx = ctx and query = query and opts = opts])
  case (marshalled jsonPayload)
  then show ?thesis
    using tail_errBeforeResult [of env ctx jsonPayload] tail_forwarded_le1 [of env ctx jsonPayload]
    by (simp add: fst_withTrace)
qed simp_all

lemma UrlCtx_Async_order:
  "errBeforeResult False (fst (ScrapeYandexUrlCtx_Async env ctx url opts)) \<and>
   length (forwarded (fst (ScrapeYandexUrlCtx_Async env ctx url opts))) \<le> 1"
proof (cases rule: ScrapeYandexUrlCtx_Async_cases
    [where env = env and ctx = ctx and url = url and opts = opts])
  case (marshalled jsonPayload)
  then show ?thesis
    using tail_errBeforeResult [of env ctx jsonPayload] tail_forwarded_le1 [of env ctx jsonPayload]
    by (simp add: fst_withTrace)
qed simp_all

subsection \<open>Failed job submission\<close>

text \<open>
  C1. When an entry point \<^verbatim>\<open>ScrapeYandexSearchCtx\<close> or \<^verbatim>\<open>ScrapeYandexUrlCtx\<close> of
  \<^verbatim>\<open>SerpClientAsync\<close> calls \<^verbatim>\<open>GetJobID\<close> and that call returns an error, the
  entry point returns the nil channel and that same error, no poller has been started and
  nothing is forwarded.
\<close>

theorem submission_error_is_synchronous:
  "(EvGetJobID jsonPayload \<in> set (fst (ScrapeYandexSearchCtx_Async env ctx query opts)) \<and>
    GetJobID (C env) jsonPayload = Inl err
    \<longrightarrow> snd (ScrapeYandexSearchCtx_Async env ctx query opts) = Returned (None, Some err) \<and>
        pollersStarted (fst (ScrapeYandexSearchCtx_Async env ctx query opts)) = [] \<and>
        forwarded (fst (ScrapeYandexSearchCtx_Async env ctx query opts)) = [])
   \<and>
   (EvGetJobID jsonPayload \<in> set (fst (ScrapeYandexUrlCtx_Async env ctx url uopts)) \<and>
    GetJobID (C env) jsonPayload = Inl err
    \<longrightarrow> snd (ScrapeYandexUrlCtx_Async env ctx url uopts) = Returned (None, Some err) \<and>
        pollersStarted (fst (ScrapeYandexUrlCtx_Async env ctx url uopts)) = [] \<and>
        forwarded (fst (ScrapeYandexUrlCtx_Async env ctx url uopts)) = [])"
proof (rule conjI; rule impI; elim conjE)
  assume sub: "EvGetJobID jsonPayload \<in> set (fst (ScrapeYandexSearchCtx_Async env ctx query opts))"
    and fail: "GetJobID (C env) jsonPayload = Inl err"
  show "snd (ScrapeYandexSearchCtx_Async env ctx query opts) = Returned (None, Some err) \<and>
        pollersStarted (fst (ScrapeYandexSearchCtx_Async env ctx query opts)) = [] \<and>
        forwarded (fst (ScrapeYandexSearchCtx_Async env ctx query opts)) = []"
  proof (cases rule: ScrapeYandexSearchCtx_Async_cases [where env = env and ctx = ctx and query = query and opts = opts])
    case (marshalled body)
    let ?tail = "getJobIDPollForward env ctx body
      (PollInterval (setSearchDefaults env (prepareOptions YandexSearchOpts_zero opts)))
      (ParseInstructions (setSearchDefaults env (prepareOptions YandexSearchOpts_zero opts)) \<noteq> None)"
    from sub marshalled(3) have "EvGetJobID jsonPayload \<in> set (fst ?tail)"
      by (cases ?tail) simp
    then have "jsonPayload = body"
      using getJobIDPollForward_submissions [of env ctx body] submissions_mem [of jsonPayload "fst ?tail"]
      by simp
    with fail marshalled(3) show ?thesis
      by (simp add: getJobIDPollForward_submitFailed)
  qed (use sub in simp_all)
next
  assume sub: "EvGetJobID jsonPayload \<in> set (fst (ScrapeYandexUrlCtx_Async env ctx url uopts))"
    and fail: "GetJobID (C env) jsonPayload = Inl err"
  show "snd (ScrapeYandexUrlCtx_Async env ctx url uopts) = Returned (None, Some err) \<and>
        pollersStarted (fst (ScrapeYandexUrlCtx_Async env ctx url uopts)) = [] \<and>
        forwarded (fst (ScrapeYandexUrlCtx_Async env ctx url uopts)) = []"
  proof (cases rule: ScrapeYandexUrlCtx_Async_cases [where env = env and ctx = ctx and url = url and opts = uopts])
    case (marshalled body)
    let ?tail = "getJobIDPollForward env ctx body
      (Url_PollInterval (setUrlDefaults env (prepareOptions YandexUrlOpts_zero uopts)))
      (Url_ParseInstructions (setUrlDefaults env (prepareOptions YandexUrlOpts_zero uopts)) \<noteq> None)"
    from sub marshalled(4) have "EvGetJobID jsonPayload \<in> set (fst ?tail)"
      by (cases ?tail) simp
    then have "jsonPayload = body"
      using getJobIDPollForward_submissions [of env ctx body] submissions_mem [of jsonPayload "fst ?tail"]
      by simp
    with fail marshalled(4) show ?thesis
      by (simp add: getJobIDPollForward_submitFailed)
  qed (use sub in simp_all)
qed

theorem submission_error_is_synchronous_witness:
  "EvGetJobID ''{}'' \<in> set (fst (ScrapeYandexSearchCtx_Async demo_env_submitFails Background ''go'' []))
   \<and> EvGetJobID ''{}'' \<in> set (fst (ScrapeYandexUrlCtx_Async demo_env_submitFails Background
                                      ''https://notyandex.example.com/search'' []))
   \<and> GetJobID (C demo_env_submitFails) ''{}'' = Inl (Error ''status 500'')
   \<and> snd (ScrapeYandexSearchCtx_Async demo_env_submitFails Background ''go'' [])
       = Returned (None, Some (Error ''status 500''))
   \<and> pollersStarted (fst (ScrapeYandexSearchCtx_Async demo_env_submitFails Background ''go'' [])) = []
   \<and> snd (ScrapeYandexUrlCtx_Async demo_env_submitFails Background
             ''https://notyandex.example.com/search'' [])
       = Returned (None, Some (Error ''status 500''))
   \<and> pollersStarted (fst (ScrapeYandexUrlCtx_Async demo_env_submitFails Background
             ''https://notyandex.example.com/search'' [])) = []"
proof -
  have search: "EvGetJobID ''{}'' \<in>
      set (fst (ScrapeYandexSearchCtx_Async demo_env_submitFails Background ''go'' []))"
    by (simp add: demo_env_submitFails_def entry_defs demo_defs)
  have url: "EvGetJobID ''{}'' \<in>
      set (fst (ScrapeYandexUrlCtx_Async demo_env_submitFails Background
                  ''https://notyandex.example.com/search'' []))"
    by (simp add: demo_env_submitFails_def entry_defs demo_defs)
  have fails: "GetJobID (C demo_env_submitFails) ''{}'' = Inl (Error ''status 500'')"
    by (simp add: demo_env_submitFails_def)
  show ?thesis
    using search url fails
      submission_error_is_synchronous [of "''{}''" demo_env_submitFails Background "''go''" "[]"
        "Error ''status 500''" "''https://notyandex.example.com/search''" "[]"]
    by simp
qed

subsection \<open>URL validation\<close>

text \<open>
  C9. \<^verbatim>\<open>ValidateUrl(inputUrl, host)\<close> returns nil exactly when \<open>inputUrl\<close> is not
  empty, the parser accepts it, the parsed scheme and the parsed host are not empty, and
  \<open>host\<close> is a contiguous substring of the parsed host. In particular a URL whose parsed
  host is \<^verbatim>\<open>notyandex.example.com\<close> passes the check against \<^verbatim>\<open>"yandex"\<close> that
  the yandex URL entry points make.
\<close>

theorem ValidateUrl_nil_iff:
  "(ValidateUrl parse inputUrl host = None \<longleftrightarrow>
      inputUrl \<noteq> [] \<and>
      (\<exists>u. parse inputUrl = Inr u \<and> Scheme u \<noteq> [] \<and> Host u \<noteq> [] \<and> sublist host (Host u)))
   \<and> (inputUrl \<noteq> [] \<and> parse inputUrl = Inr u \<and> Scheme u \<noteq> [] \<and>
        Host u = ''notyandex.example.com''
        \<longrightarrow> ValidateUrl parse inputUrl ''yandex'' = None)"
proof
  show "ValidateUrl parse inputUrl host = None \<longleftrightarrow>
      inputUrl \<noteq> [] \<and>
      (\<exists>u. parse inputUrl = Inr u \<and> Scheme u \<noteq> [] \<and> Host u \<noteq> [] \<and> sublist host (Host u))"
    by (cases "parse inputUrl") (auto simp: ValidateUrl_def Contains_sublist)
  have "Contains ''notyandex.example.com'' ''yandex''"
    by simp
  then show "inputUrl \<noteq> [] \<and> parse inputUrl = Inr u \<and> Scheme u \<noteq> [] \<and>
        Host u = ''notyandex.example.com''
        \<longrightarrow> ValidateUrl parse inputUrl ''yandex'' = None"
    by (simp add: ValidateUrl_def)
qed

theorem ValidateUrl_nil_iff_witness:
  "ValidateUrl demo_ParseRequestURI ''https://notyandex.example.com/search'' ''yandex'' = None
   \<and> ValidateUrl demo_ParseRequestURI ''https://example.com/'' ''yandex''
       = Some (Error ''URL does not belong to yandex'')
   \<and> fst (ScrapeYandexUrlCtx demo_env Background ''https://notyandex.example.com/search'' [])
       = [EvMarshal (urlPayload demo_env ''https://notyandex.example.com/search''
                      (setUrlDefaults demo_env YandexUrlOpts_zero)),
          EvReq Background ''{}'' ''POST'']"
proof -
  let ?u = "\<lparr>Scheme = ''https'', Host = ''notyandex.example.com''\<rparr>"
  have p: "demo_ParseRequestURI ''https://notyandex.example.com/search'' = Inr ?u"
    by (simp add: demo_ParseRequestURI_def)
  have ok: "ValidateUrl demo_ParseRequestURI ''https://notyandex.example.com/search'' ''yandex''
              = None"
    using ValidateUrl_nil_iff [of demo_ParseRequestURI "''https://notyandex.example.com/search''"
        "''yandex''" ?u] p
    by simp
  have bad: "ValidateUrl demo_ParseRequestURI ''https://example.com/'' ''yandex''
       = Some (Error ''URL does not belong to yandex'')"
    by (simp add: ValidateUrl_def demo_ParseRequestURI_def)
  have run: "fst (ScrapeYandexUrlCtx demo_env Background ''https://notyandex.example.com/search'' [])
       = [EvMarshal (urlPayload demo_env ''https://notyandex.example.com/search''
                      (setUrlDefaults demo_env YandexUrlOpts_zero)),
          EvReq Background ''{}'' ''POST'']"
    using ok
    by (simp add: ScrapeYandexUrlCtx_def demo_env_def prepareOptions_def
        checkParameterValidity_Url_def setUrlDefaults_def YandexUrlOpts_zero_def
        demo_internal_def demo_oxylabs_def reqGetResp_def demo_Client_def)
  show ?thesis using ok bad run by simp
qed

subsection \<open>The handshake on the error channel\<close>

text \<open>
  C5. Every entry point of \<^verbatim>\<open>SerpClientAsync\<close> that has started the poller receives
  exactly one value from \<^verbatim>\<open>errChan\<close>, the poller's first send there, after the
  \<^verbatim>\<open>go\<close> statement and before it returns, and does not return when the poller
  offers none. When the value the poller sends is a non-nil error, the entry point
  returns the nil channel and that same error: nothing is received from
  \<^verbatim>\<open>httpRespChan\<close> and nothing is sent on the caller-facing channel.
\<close>

theorem error_sink_read_before_return:
  "errorHandshake env (ScrapeYandexSearchCtx_Async env ctx query opts) \<and>
   errorHandshake env (ScrapeYandexUrlCtx_Async env ctx url uopts) \<and>
   errorHandshake env (ScrapeYandexSearch_Async env query opts) \<and>
   errorHandshake env (ScrapeYandexUrl_Async env url uopts) \<and>
   (pollersStarted (fst (ScrapeYandexSearchCtx_Async env ctx query opts)) = [(c, jobID, interval)] \<and>
    PollJobStatus (C env) c jobID interval = SendErrChan (Some err) # rest
    \<longrightarrow> snd (ScrapeYandexSearchCtx_Async env ctx query opts) = Returned (None, Some err)) \<and>
   (pollersStarted (fst (ScrapeYandexUrlCtx_Async env ctx url uopts)) = [(c, jobID, interval)] \<and>
    PollJobStatus (C env) c jobID interval = SendErrChan (Some err) # rest
    \<longrightarrow> snd (ScrapeYandexUrlCtx_Async env ctx url uopts) = Returned (None, Some err))"
proof (intro conjI impI; (elim conjE)?)
  show "errorHandshake env (ScrapeYandexSearchCtx_Async env ctx query opts)"
    by (rule SearchCtx_Async_errorHandshake)
  show "errorHandshake env (ScrapeYandexUrlCtx_Async env ctx url uopts)"
    by (rule UrlCtx_Async_errorHandshake)
  show "errorHandshake env (ScrapeYandexSearch_Async env query opts)"
    by (simp add: ScrapeYandexSearch_Async_def deferCancel_errorHandshake
        SearchCtx_Async_errorHandshake)
  show "errorHandshake env (ScrapeYandexUrl_Async env url uopts)"
    by (simp add: ScrapeYandexUrl_Async_def deferCancel_errorHandshake
        UrlCtx_Async_errorHandshake)
next
  assume "pollersStarted (fst (ScrapeYandexSearchCtx_Async env ctx query opts)) = [(c, jobID, interval)]"
    and "PollJobStatus (C env) c jobID interval = SendErrChan (Some err) # rest"
  then show "snd (ScrapeYandexSearchCtx_Async env ctx query opts) = Returned (None, Some err)"
    by (rule errorHandshake_propagates [OF SearchCtx_Async_errorHandshake])
next
  assume "pollersStarted (fst (ScrapeYandexUrlCtx_Async env ctx url uopts)) = [(c, jobID, interval)]"
    and "PollJobStatus (C env) c jobID interval = SendErrChan (Some err) # rest"
  then show "snd (ScrapeYandexUrlCtx_Async env ctx url uopts) = Returned (None, Some err)"
    by (rule errorHandshake_propagates [OF UrlCtx_Async_errorHandshake])
qed

theorem error_sink_read_before_return_witness:
  "pollersStarted (fst (ScrapeYandexSearchCtx_Async demo_env_pollFails Background ''go'' []))
       = [(Background, ''job-1'', 0)]
   \<and> PollJobStatus (C demo_env_pollFails) Background ''job-1'' 0
       = [SendErrChan (Some (Error ''job faulted''))]
   \<and> snd (ScrapeYandexSearchCtx_Async demo_env_pollFails Background ''go'' [])
       = Returned (None, Some (Error ''job faulted''))
   \<and> errorHandshake demo_env_pollFails
        (ScrapeYandexSearchCtx_Async demo_env_pollFails Background ''go'' [])
   \<and> errReads (fst (ScrapeYandexSearchCtx_Async demo_env_pollFails Background ''go'' []))
       = [Some (Error ''job faulted'')]
   \<and> forwarded (fst (ScrapeYandexSearchCtx_Async demo_env_pollFails Background ''go'' [])) = []
   \<and> pollersStarted (fst (ScrapeYandexUrlCtx_Async demo_env_pollFails Background
        ''https://notyandex.example.com/search'' []))
       = [(Background, ''job-1'', 0)]
   \<and> snd (ScrapeYandexUrlCtx_Async demo_env_pollFails Background
        ''https://notyandex.example.com/search'' [])
       = Returned (None, Some (Error ''job faulted''))"
proof -
  have started: "pollersStarted
      (fst (ScrapeYandexSearchCtx_Async demo_env_pollFails Background ''go'' []))
       = [(Background, ''job-1'', 0)]"
    by (simp add: demo_env_pollFails_def entry_defs demo_defs)
  have startedUrl: "pollersStarted (fst (ScrapeYandexUrlCtx_Async demo_env_pollFails Background
        ''https://notyandex.example.com/search'' []))
       = [(Background, ''job-1'', 0)]"
    by (simp add: demo_env_pollFails_def entry_defs demo_defs)
  have sends: "PollJobStatus (C demo_env_pollFails) Background ''job-1'' 0
       = SendErrChan (Some (Error ''job faulted'')) # []"
    by (simp add: demo_env_pollFails_def)
  note inst = error_sink_read_before_return [of demo_env_pollFails Background "''go''" "[]"
      "''https://notyandex.example.com/search''" "[]" Background "''job-1''" 0
      "Error ''job faulted''" "[]"]
  from inst started sends
  have ret: "snd (ScrapeYandexSearchCtx_Async demo_env_pollFails Background ''go'' [])
       = Returned (None, Some (Error ''job faulted''))"
    by blast
  from inst startedUrl sends
  have retUrl: "snd (ScrapeYandexUrlCtx_Async demo_env_pollFails Background
        ''https://notyandex.example.com/search'' [])
       = Returned (None, Some (Error ''job faulted''))"
    by blast
  from inst have pred: "errorHandshake demo_env_pollFails
        (ScrapeYandexSearchCtx_Async demo_env_pollFails Background ''go'' [])"
    by blast
  from pred started sends
  have reads: "errReads (fst (ScrapeYandexSearchCtx_Async demo_env_pollFails Background ''go'' []))
       = [Some (Error ''job faulted'')]"
    and fwd: "forwarded (fst (ScrapeYandexSearchCtx_Async demo_env_pollFails Background ''go'' [])) = []"
    by (simp_all add: errorHandshake_def)
  show ?thesis
    using started startedUrl sends ret retUrl pred reads fwd by simp
qed

text \<open>
  C6. In the trace of every entry point of \<^verbatim>\<open>SerpClientAsync\<close>, each receive from
  \<^verbatim>\<open>httpRespChan\<close> is preceded by a receive of nil from \<^verbatim>\<open>errChan\<close>, and at
  most one value is sent on the caller-facing channel.
\<close>

theorem error_sink_before_result_sink:
  "errSinkFirst (fst (ScrapeYandexSearchCtx_Async env ctx query opts)) \<and>
   length (forwarded (fst (ScrapeYandexSearchCtx_Async env ctx query opts))) \<le> 1 \<and>
   errSinkFirst (fst (ScrapeYandexUrlCtx_Async env ctx url uopts)) \<and>
   length (forwarded (fst (ScrapeYandexUrlCtx_Async env ctx url uopts))) \<le> 1 \<and>
   errSinkFirst (fst (ScrapeYandexSearch_Async env query opts)) \<and>
   length (forwarded (fst (ScrapeYandexSearch_Async env query opts))) \<le> 1 \<and>
   errSinkFirst (fst (ScrapeYandexUrl_Async env url uopts)) \<and>
   length (forwarded (fst (ScrapeYandexUrl_Async env url uopts))) \<le> 1"
proof -
  let ?dctx = "WithTimeout Background (DefaultTimeout (internal env))"
  note search = SearchCtx_Async_order [of env ctx query opts]
  note url = UrlCtx_Async_order [of env ctx url uopts]
  note search' = SearchCtx_Async_order [of env ?dctx query opts]
  note url' = UrlCtx_Async_order [of env ?dctx url uopts]
  have "errSinkFirst (fst (ScrapeYandexSearch_Async env query opts))"
    using search' by (simp add: ScrapeYandexSearch_Async_def errSinkFirstI deferCancel_errBeforeResult)
  moreover have "length (forwarded (fst (ScrapeYandexSearch_Async env query opts))) \<le> 1"
    using search' by (simp add: ScrapeYandexSearch_Async_def deferCancel_forwarded)
  moreover have "errSinkFirst (fst (ScrapeYandexUrl_Async env url uopts))"
    using url' by (simp add: ScrapeYandexUrl_Async_def errSinkFirstI deferCancel_errBeforeResult)
  moreover have "length (forwarded (fst (ScrapeYandexUrl_Async env url uopts))) \<le> 1"
    using url' by (simp add: ScrapeYandexUrl_Async_def deferCancel_forwarded)
  ultimately show ?thesis
    using search url by (simp add: errSinkFirstI)
qed

theorem error_sink_before_result_sink_witness:
  "errSinkFirst (fst (ScrapeYandexSearchCtx_Async demo_env Background ''go'' []))
   \<and> tl (fst (ScrapeYandexSearchCtx_Async demo_env Background ''go'' []))
       = [EvGetJobID ''{}'', EvGoPollJobStatus Background ''job-1'' 0, EvRecvErrChan None,
          EvRecvHttpRespChan demo_httpResp,
          EvGoSendRespChan \<lparr>Parsed = False, Content = ''{}''\<rparr>]"
  using error_sink_before_result_sink [of demo_env Background "''go''" "[]"]
  by (simp add: entry_defs demo_defs)




subsection \<open>Variadic options\<close>

lemma prepareOptions_snoc: "prepareOptions zero (earlier @ [opt]) = prepareOptions zero [opt]"
  by (simp add: prepareOptions_def)

lemma prepareOptions_zero:
  "prepareOptions zero [] = zero"
  "prepareOptions zero [None] = zero"
  "prepareOptions zero [Some p] = p"
  by (simp_all add: prepareOptions_def)

text \<open>
  C10. Every entry point consults only the last element of its variadic options: a list
  gives the same trace and results as its last element alone, and the empty list or a
  nil last element gives the same as the zero-valued options struct, to which the
  defaults are then applied.
\<close>

theorem only_last_option_is_used:
  "lastOptionOnly YandexSearchOpts_zero (ScrapeYandexSearchCtx env ctx query) \<and>
   lastOptionOnly YandexSearchOpts_zero (ScrapeYandexSearch env query) \<and>
   lastOptionOnly YandexSearchOpts_zero (ScrapeYandexSearchCtx_Async env ctx query) \<and>
   lastOptionOnly YandexSearchOpts_zero (ScrapeYandexSearch_Async env query) \<and>
   lastOptionOnly YandexUrlOpts_zero (ScrapeYandexUrlCtx env ctx url) \<and>
   lastOptionOnly YandexUrlOpts_zero (ScrapeYandexUrl env url) \<and>
   lastOptionOnly YandexUrlOpts_zero (ScrapeYandexUrlCtx_Async env ctx url) \<and>
   lastOptionOnly YandexUrlOpts_zero (ScrapeYandexUrl_Async env url)"
  unfolding lastOptionOnly_def
    ScrapeYandexSearchCtx_def ScrapeYandexSearch_def ScrapeYandexUrlCtx_def ScrapeYandexUrl_def
    ScrapeYandexSearchCtx_Async_def ScrapeYandexSearch_Async_def
    ScrapeYandexUrlCtx_Async_def ScrapeYandexUrl_Async_def
  by (simp only: prepareOptions_snoc prepareOptions_zero simp_thms)

theorem only_last_option_is_used_witness:
  "lastOptionOnly YandexSearchOpts_zero (ScrapeYandexSearchCtx demo_env Background ''go'')
   \<and> ScrapeYandexSearchCtx demo_env Background ''go'' [Some demo_opts_bad, None]
       = ScrapeYandexSearchCtx demo_env Background ''go'' [Some YandexSearchOpts_zero]
   \<and> snd (ScrapeYandexSearchCtx demo_env Background ''go'' [Some demo_opts_bad, None])
       = (Some \<lparr>Parsed = False, Content = ''{}''\<rparr>, None)
   \<and> snd (ScrapeYandexSearchCtx demo_env Background ''go'' [None, Some demo_opts_bad])
       = (None, Some (Error ''limit, pages and start_page parameters must be greater than 0''))"
proof -
  note inst = only_last_option_is_used [of demo_env Background "''go''" "''u''"]
  then have all: "lastOptionOnly YandexSearchOpts_zero (ScrapeYandexSearchCtx demo_env Background ''go'')"
    by simp
  then have "ScrapeYandexSearchCtx demo_env Background ''go'' ([Some demo_opts_bad] @ [None])
       = ScrapeYandexSearchCtx demo_env Background ''go'' [Some YandexSearchOpts_zero]"
    unfolding lastOptionOnly_def by metis
  moreover have "snd (ScrapeYandexSearchCtx demo_env Background ''go'' [Some YandexSearchOpts_zero])
       = (Some \<lparr>Parsed = False, Content = ''{}''\<rparr>, None)"
    by (simp add: entry_defs demo_defs)
  moreover have "snd (ScrapeYandexSearchCtx demo_env Background ''go'' [None, Some demo_opts_bad])
       = (None, Some (Error ''limit, pages and start_page parameters must be greater than 0''))"
    by (simp add: entry_defs demo_defs)
  ultimately show ?thesis using all by simp
qed


subsection \<open>Invalid input\<close>

text \<open>
  C7. When \<^verbatim>\<open>checkParameterValidity\<close> rejects the options (after the defaults), or,
  for the URL entry points, \<^verbatim>\<open>ValidateUrl\<close> rejects the URL, every entry point
  returns that error with a nil result or nil channel, and its trace holds no call of
  \<^verbatim>\<open>Req\<close> or \<^verbatim>\<open>GetJobID\<close> and no \<^verbatim>\<open>go\<close> statement: it is empty, but for the
  deferred \<^verbatim>\<open>cancel()\<close> of the entry points without a context argument.
\<close>

theorem invalid_input_returns_before_network:
  "(checkParameterValidity env
      (setSearchDefaults env (prepareOptions YandexSearchOpts_zero opts)) = Some err
    \<longrightarrow> ScrapeYandexSearchCtx env ctx query opts = ([], (None, Some err)) \<and>
        ScrapeYandexSearch env query opts = ([EvCancel], (None, Some err)) \<and>
        ScrapeYandexSearchCtx_Async env ctx query opts = ([], Returned (None, Some err)) \<and>
        ScrapeYandexSearch_Async env query opts = ([EvCancel], Returned (None, Some err)))
   \<and>
   (ValidateUrl (url_ParseRequestURI env) url ''yandex'' = Some err \<or>
    ValidateUrl (url_ParseRequestURI env) url ''yandex'' = None \<and>
    checkParameterValidity_Url env
      (setUrlDefaults env (prepareOptions YandexUrlOpts_zero uopts)) = Some err
    \<longrightarrow> ScrapeYandexUrlCtx env ctx url uopts = ([], (None, Some err)) \<and>
        ScrapeYandexUrl env url uopts = ([EvCancel], (None, Some err)) \<and>
        ScrapeYandexUrlCtx_Async env ctx url uopts = ([], Returned (None, Some err)) \<and>
        ScrapeYandexUrl_Async env url uopts = ([EvCancel], Returned (None, Some err)))"
  by (auto simp: ScrapeYandexSearchCtx_def ScrapeYandexSearch_def
      ScrapeYandexSearchCtx_Async_def ScrapeYandexSearch_Async_def
      ScrapeYandexUrlCtx_def ScrapeYandexUrl_def
      ScrapeYandexUrlCtx_Async_def ScrapeYandexUrl_Async_def)

theorem invalid_input_returns_before_network_witness:
  "checkParameterValidity demo_env
      (setSearchDefaults demo_env (prepareOptions YandexSearchOpts_zero [Some demo_opts_bad]))
     = Some (Error ''limit, pages and start_page parameters must be greater than 0'')
   \<and> ScrapeYandexSearchCtx_Async demo_env Background ''go'' [Some demo_opts_bad]
     = ([], Returned (None,
          Some (Error ''limit, pages and start_page parameters must be greater than 0'')))
   \<and> ValidateUrl (url_ParseRequestURI demo_env) ''https://example.com/'' ''yandex''
     = Some (Error ''URL does not belong to yandex'')
   \<and> ScrapeYandexUrl_Async demo_env ''https://example.com/'' []
     = ([EvCancel], Returned (None, Some (Error ''URL does not belong to yandex'')))
   \<and> checkParameterValidity_Url demo_env
      (setUrlDefaults demo_env (prepareOptions YandexUrlOpts_zero [Some demo_url_opts_bad]))
     = Some (Error ''invalid render parameter: pdf'')
   \<and> ScrapeYandexUrlCtx demo_env Background ''https://notyandex.example.com/search''
        [Some demo_url_opts_bad]
     = ([], (None, Some (Error ''invalid render parameter: pdf'')))"
proof -
  have opts: "checkParameterValidity demo_env
      (setSearchDefaults demo_env (prepareOptions YandexSearchOpts_zero [Some demo_opts_bad]))
     = Some (Error ''limit, pages and start_page parameters must be greater than 0'')"
    by (simp add: entry_defs demo_defs)
  have url: "ValidateUrl (url_ParseRequestURI demo_env) ''https://example.com/'' ''yandex''
     = Some (Error ''URL does not belong to yandex'')"
    by (simp add: entry_defs demo_defs)
  have urlOk: "ValidateUrl (url_ParseRequestURI demo_env)
      ''https://notyandex.example.com/search'' ''yandex'' = None"
    by (simp add: entry_defs demo_defs)
  have uopts: "checkParameterValidity_Url demo_env
      (setUrlDefaults demo_env (prepareOptions YandexUrlOpts_zero [Some demo_url_opts_bad]))
     = Some (Error ''invalid render parameter: pdf'')"
    by (simp add: entry_defs demo_defs demo_url_opts_bad_def)
  show ?thesis
    using opts url urlOk uopts
      invalid_input_returns_before_network [of demo_env "[Some demo_opts_bad]"
        "Error ''limit, pages and start_page parameters must be greater than 0''"
        Background "''go''" "''https://example.com/''" "[]"]
      invalid_input_returns_before_network [of demo_env "[]"
        "Error ''URL does not belong to yandex''"
        Background "''go''" "''https://example.com/''" "[]"]
      invalid_input_returns_before_network [of demo_env "[]"
        "Error ''invalid render parameter: pdf''"
        Background "''go''" "''https://notyandex.example.com/search''"
        "[Some demo_url_opts_bad]"]
    by simp
qed


subsection \<open>The parse flag of the polling yandex-search entry point\<close>

lemma Async_search_payload_has_no_parse:
  "map (\<lambda>payload. payload ''parse'')
     (marshalled (fst (ScrapeYandexSearchCtx_Async env ctx query opts))) = [None] \<or>
   marshalled (fst (ScrapeYandexSearchCtx_Async env ctx query opts)) = []"
proof (cases rule: ScrapeYandexSearchCtx_Async_cases
    [where env = env and ctx = ctx and query = query and opts = opts])
  case (invalid err)
  then show ?thesis by simp
next
  case (marshalFailed err)
  then show ?thesis by (simp add: searchPayload_def split: option.split)
next
  case (marshalled jsonPayload)
  have "marshalled (fst (getJobIDPollForward env ctx jsonPayload interval flag)) = []"
    for interval flag
    by (cases rule: getJobIDPollForward_cases [where env = env and ctx = ctx
          and jsonPayload = jsonPayload and interval = interval and flag = flag]) simp_all
  with marshalled(3) show ?thesis
    by (simp add: fst_withTrace searchPayload_def split: option.split)
qed

text \<open>
  C3. With parse instructions present, the payload that
  \<^verbatim>\<open>(*SerpClientAsync).ScrapeYandexSearchCtx\<close> hands to \<^verbatim>\<open>json.Marshal\<close> has the
  key \<^verbatim>\<open>parsing_instructions\<close> and no key \<^verbatim>\<open>parse\<close>, while the payload of
  \<^verbatim>\<open>(*SerpClient).ScrapeYandexSearchCtx\<close> for the same input has \<^verbatim>\<open>parse\<close> set to
  true.
\<close>

theorem Async_search_marshals_without_parse:
  "map (\<lambda>payload. (payload ''parse'', payload ''parsing_instructions''))
     (marshalled (fst (ScrapeYandexSearchCtx_Async demo_env Background ''go''
                        [Some demo_opts_parse])))
     = [(None, Some (JMap [(''title'', JString ''//h1'')]))]
   \<and> map (\<lambda>payload. (payload ''parse'', payload ''parsing_instructions''))
     (marshalled (fst (ScrapeYandexSearchCtx demo_env Background ''go''
                        [Some demo_opts_parse])))
     = [(Some (JBool True), Some (JMap [(''title'', JString ''//h1'')]))]"
  by (simp add: entry_defs demo_defs searchPayload_def)


subsection \<open>Contexts\<close>

lemma reqGetResp_contexts: "contextsUsed (fst (reqGetResp env ctx jsonPayload flag)) = [ctx]"
  by (simp add: reqGetResp_def split: sum.split)

lemma getJobIDPollForward_contexts:
  "set (contextsUsed (fst (getJobIDPollForward env ctx jsonPayload interval flag))) \<subseteq> {ctx}"
  by (cases rule: getJobIDPollForward_cases [where env = env and ctx = ctx
        and jsonPayload = jsonPayload and interval = interval and flag = flag]) simp_all

lemma SearchCtx_contexts:
  "set (contextsUsed (fst (ScrapeYandexSearchCtx env ctx query opts))) \<subseteq> {ctx}"
  by (simp add: ScrapeYandexSearchCtx_def Let_def fst_withTrace reqGetResp_contexts
      split: option.split sum.split)

lemma UrlCtx_contexts:
  "set (contextsUsed (fst (ScrapeYandexUrlCtx env ctx url opts))) \<subseteq> {ctx}"
  by (simp add: ScrapeYandexUrlCtx_def Let_def fst_withTrace reqGetResp_contexts
      split: option.split sum.split)

lemma SearchCtx_Async_contexts:
  "set (contextsUsed (fst (ScrapeYandexSearchCtx_Async env ctx query opts))) \<subseteq> {ctx}"
proof (cases rule: ScrapeYandexSearchCtx_Async_cases
    [where env = env and ctx = ctx and query = query and opts = opts])
  case (marshalled jsonPayload)
  then show ?thesis
    using getJobIDPollForward_contexts [of env ctx jsonPayload]
    by (simp add: fst_withTrace)
qed simp_all

lemma UrlCtx_Async_contexts:
  "set (contextsUsed (fst (ScrapeYandexUrlCtx_Async env ctx url opts))) \<subseteq> {ctx}"
proof (cases rule: ScrapeYandexUrlCtx_Async_cases
    [where env = env and ctx = ctx and url = url and opts = opts])
  case (marshalled jsonPayload)
  then show ?thesis
    using getJobIDPollForward_contexts [of env ctx jsonPayload]
    by (simp add: fst_withTrace)
qed simp_all

lemma contextsUsed_cancel: "contextsUsed (tr @ [EvCancel]) = contextsUsed tr"
  by (induction tr rule: contextsUsed.induct) simp_all

lemma deferCancel_contexts: "contextsUsed (fst (deferCancel call)) = contextsUsed (fst call)"
  by (cases call rule: deferCancel.cases) (simp_all add: contextsUsed_cancel)

text \<open>
  C8. Every context that a context-accepting entry point hands to \<^verbatim>\<open>Req\<close> or to
  \<^verbatim>\<open>PollJobStatus\<close> is the caller's context. Every entry point without a context
  argument runs its context-accepting counterpart with
  \<^verbatim>\<open>context.WithTimeout(context.Background(), internal.DefaultTimeout)\<close> and then
  calls \<^verbatim>\<open>cancel()\<close>, so every context it hands on is that one.
\<close>

theorem default_timeout_context:
  "set (contextsUsed (fst (ScrapeYandexSearchCtx env ctx query opts))) \<subseteq> {ctx} \<and>
   set (contextsUsed (fst (ScrapeYandexUrlCtx env ctx url uopts))) \<subseteq> {ctx} \<and>
   set (contextsUsed (fst (ScrapeYandexSearchCtx_Async env ctx query opts))) \<subseteq> {ctx} \<and>
   set (contextsUsed (fst (ScrapeYandexUrlCtx_Async env ctx url uopts))) \<subseteq> {ctx} \<and>
   (let timeoutCtx = WithTimeout Background (DefaultTimeout (internal env)) in
      ScrapeYandexSearch env query opts =
        (fst (ScrapeYandexSearchCtx env timeoutCtx query opts) @ [EvCancel],
         snd (ScrapeYandexSearchCtx env timeoutCtx query opts)) \<and>
      ScrapeYandexUrl env url uopts =
        (fst (ScrapeYandexUrlCtx env timeoutCtx url uopts) @ [EvCancel],
         snd (ScrapeYandexUrlCtx env timeoutCtx url uopts)) \<and>
      ScrapeYandexSearch_Async env query opts =
        deferCancel (ScrapeYandexSearchCtx_Async env timeoutCtx query opts) \<and>
      ScrapeYandexUrl_Async env url uopts =
        deferCancel (ScrapeYandexUrlCtx_Async env timeoutCtx url uopts) \<and>
      set (contextsUsed (fst (ScrapeYandexSearch env query opts))) \<subseteq> {timeoutCtx} \<and>
      set (contextsUsed (fst (ScrapeYandexUrl env url uopts))) \<subseteq> {timeoutCtx} \<and>
      set (contextsUsed (fst (ScrapeYandexSearch_Async env query opts))) \<subseteq> {timeoutCtx} \<and>
      set (contextsUsed (fst (ScrapeYandexUrl_Async env url uopts))) \<subseteq> {timeoutCtx})"
proof -
  let ?t = "WithTimeout Background (DefaultTimeout (internal env))"
  have sync: "ScrapeYandexSearch env query opts =
        (fst (ScrapeYandexSearchCtx env ?t query opts) @ [EvCancel],
         snd (ScrapeYandexSearchCtx env ?t query opts))"
      "ScrapeYandexUrl env url uopts =
        (fst (ScrapeYandexUrlCtx env ?t url uopts) @ [EvCancel],
         snd (ScrapeYandexUrlCtx env ?t url uopts))"
    by (simp_all add: ScrapeYandexSearch_def ScrapeYandexUrl_def Let_def split_beta)
  have async: "ScrapeYandexSearch_Async env query opts =
        deferCancel (ScrapeYandexSearchCtx_Async env ?t query opts)"
      "ScrapeYandexUrl_Async env url uopts =
        deferCancel (ScrapeYandexUrlCtx_Async env ?t url uopts)"
    by (simp_all add: ScrapeYandexSearch_Async_def ScrapeYandexUrl_Async_def Let_def)
  have used: "set (contextsUsed (fst (ScrapeYandexSearch env query opts))) \<subseteq> {?t}"
      "set (contextsUsed (fst (ScrapeYandexUrl env url uopts))) \<subseteq> {?t}"
      "set (contextsUsed (fst (ScrapeYandexSearch_Async env query opts))) \<subseteq> {?t}"
      "set (contextsUsed (fst (ScrapeYandexUrl_Async env url uopts))) \<subseteq> {?t}"
    using SearchCtx_contexts [of env ?t query opts] UrlCtx_contexts [of env ?t url uopts]
      SearchCtx_Async_contexts [of env ?t query opts] UrlCtx_Async_contexts [of env ?t url uopts]
    by (simp_all add: sync async contextsUsed_cancel deferCancel_contexts)
  show ?thesis
    unfolding Let_def
    using sync async used SearchCtx_contexts [of env ctx query opts]
      UrlCtx_contexts [of env ctx url uopts] SearchCtx_Async_contexts [of env ctx query opts]
      UrlCtx_Async_contexts [of env ctx url uopts]
    by (intro conjI)
qed

theorem default_timeout_context_witness:
  "contextsUsed (fst (ScrapeYandexSearch demo_env ''go'' [])) = [WithTimeout Background 50000000000]
   \<and> contextsUsed (fst (ScrapeYandexSearch_Async demo_env ''go'' []))
       = [WithTimeout Background 50000000000]
   \<and> contextsUsed (fst (ScrapeYandexSearchCtx demo_env (Cancelled Background) ''go'' []))
       = [Cancelled Background]
   \<and> contextsUsed (fst (ScrapeYandexSearchCtx_Async demo_env (Cancelled Background) ''go'' []))
       = [Cancelled Background]
   \<and> set (contextsUsed (fst (ScrapeYandexSearchCtx_Async demo_env (Cancelled Background) ''go'' [])))
       \<subseteq> {Cancelled Background}"
  using default_timeout_context [of demo_env "Cancelled Background" "''go''" "[]" "''u''" "[]"]
  by (simp add: entry_defs demo_defs)









end
